theory Spec2Isabelle
  imports Main "HOL-Library.Word"
begin

section \<open>Sector mapping (flash.py, lines 22-53)\<close>

text \<open>
  Python integers are unbounded, so addresses and sector indices are \<open>int\<close>.
  Exceptions of the source are values of \<open>error\<close>.
\<close>

datatype error =
    ValueError
  | TypeError
  | StructError
  | IndexError
  | StopIteration
  | AttributeError
  | Exception string

text \<open>\<open>stm_addr_sector_map\<close> returns \<open>None\<close> when no branch applies.\<close>

definition stm_addr_sector_map :: "int \<Rightarrow> int option" where
  "stm_addr_sector_map addr =
    (if addr \<ge> 0x08000000 \<and> addr < 0x08004000 then Some 0
     else if addr \<ge> 0x08004000 \<and> addr < 0x08008000 then Some 1
     else if addr \<ge> 0x08008000 \<and> addr < 0x0800C000 then Some 2
     else if addr \<ge> 0x0800C000 \<and> addr < 0x08010000 then Some 3
     else if addr \<ge> 0x08010000 \<and> addr < 0x08020000 then Some 4
     else if addr \<ge> 0x08020000 \<and> addr < 0x08040000 then Some 5
     else if addr \<ge> 0x08040000 \<and> addr < 0x08060000 then Some 6
     else if addr \<ge> 0x08060000 \<and> addr < 0x08080000 then Some 7
     else if addr \<ge> 0x08080000 \<and> addr < 0x080A0000 then Some 8
     else if addr \<ge> 0x080A0000 \<and> addr < 0x080C0000 then Some 9
     else if addr \<ge> 0x080C0000 \<and> addr < 0x080E0000 then Some 10
     else if addr \<ge> 0x080E0000 \<and> addr < 0x08100000 then Some 11
     else None)"

text \<open>\<open>m25_addr_sector_map\<close> raises \<open>ValueError\<close> outside \<open>0 .. 0xFFFFF\<close>;
  \<open>addr >> 16\<close> on a Python integer is floor division by \<open>2 ^ 16\<close>.\<close>

definition m25_addr_sector_map :: "int \<Rightarrow> error + int" where
  "m25_addr_sector_map addr =
    (if addr < 0 \<or> addr > 0xFFFFF then Inl ValueError
     else Inr (drop_bit 16 addr))"

section \<open>Range extraction (flash.py, lines 55-63)\<close>

text \<open>
  The source image is an external object. The engine uses two of its methods:
  \<open>addresses()\<close>, the populated addresses, and \<open>tobinstr(start, size)\<close>, a
  byte string read from the image. Both are taken as given, as fields of a record.
  A Python 2 byte string is a list of bytes.
\<close>

type_synonym byte = "8 word"

record ihx =
  addresses :: "int list"
  tobinstr :: "int \<Rightarrow> int \<Rightarrow> byte list"

text \<open>\<open>enumerate\<close> pairs each element with its index, counted from 0.\<close>

fun enumerate_from :: "int \<Rightarrow> 'a list \<Rightarrow> (int \<times> 'a) list" where
  "enumerate_from i [] = []"
| "enumerate_from i (x # xs) = (i, x) # enumerate_from (i + 1) xs"

text \<open>
  \<open>itertools.groupby\<close>: consecutive elements with equal keys form one group, and a
  new group starts whenever the key changes.
\<close>

function groupby :: "('a \<Rightarrow> 'k) \<Rightarrow> 'a list \<Rightarrow> ('k \<times> 'a list) list" where
  "groupby key [] = []"
| "groupby key (x # xs) =
     (key x, x # takeWhile (\<lambda>y. key y = key x) xs)
       # groupby key (dropWhile (\<lambda>y. key y = key x) xs)"
  by pat_completeness auto
termination
  by (relation "measure (\<lambda>(key, xs). length xs)")
     (auto simp: length_dropWhile_le less_Suc_eq_le)

text \<open>
  \<open>first_last\<close> takes the first element of the group with \<open>x.next()\<close>, which raises
  \<open>StopIteration\<close> on an empty iterator, runs through the rest keeping the last one
  seen, and returns the addresses of both.
\<close>

fun first_last :: "(int \<times> int) list \<Rightarrow> error + (int \<times> int)" where
  "first_last [] = Inl StopIteration"
| "first_last (first # x) = Inr (snd first, snd (foldl (\<lambda>last y. y) first x))"

text \<open>The list comprehension: the first failing element aborts the whole list.\<close>

fun collect :: "('a \<Rightarrow> error + 'b) \<Rightarrow> 'a list \<Rightarrow> error + 'b list" where
  "collect f [] = Inr []"
| "collect f (x # xs) =
     (case f x of
        Inl e \<Rightarrow> Inl e
      | Inr y \<Rightarrow> (case collect f xs of Inl e \<Rightarrow> Inl e | Inr ys \<Rightarrow> Inr (y # ys)))"

definition ihx_ranges :: "ihx \<Rightarrow> error + (int \<times> int) list" where
  "ihx_ranges hexfile =
     collect (\<lambda>(k, v). first_last v)
       (groupby (\<lambda>(i, x). i - x) (enumerate_from 0 (addresses hexfile)))"

section \<open>Message encoding\<close>

text \<open>
  The formats of Python's \<open>struct\<close> module that the engine uses. \<open>pack\<close> raises
  \<open>struct.error\<close> when a number does not fit its field, \<open>unpack\<close> when the string
  has not exactly the size of the format. \<open><\<close> is little-endian, \<open>I\<close> an unsigned
  32-bit field, \<open>B\<close> an unsigned byte.
\<close>

definition pack_B :: "int \<Rightarrow> error + byte list" where
  "pack_B n =
     (if 0 \<le> n \<and> n \<le> 255 then Inr [word_of_int n] else Inl StructError)"

definition pack_IB :: "int \<Rightarrow> int \<Rightarrow> error + byte list" where
  "pack_IB a n =
     (if 0 \<le> a \<and> a < 2 ^ 32 \<and> 0 \<le> n \<and> n \<le> 255
      then Inr [word_of_int a, word_of_int (a div 2 ^ 8), word_of_int (a div 2 ^ 16),
                word_of_int (a div 2 ^ 24), word_of_int n]
      else Inl StructError)"

definition unpack_I :: "byte list \<Rightarrow> error + int" where
  "unpack_I s =
     (case s of
        [b0, b1, b2, b3] \<Rightarrow>
          Inr (uint b0 + 2 ^ 8 * uint b1 + 2 ^ 16 * uint b2 + 2 ^ 24 * uint b3)
      | _ \<Rightarrow> Inl StructError)"

definition unpack_B :: "byte list \<Rightarrow> error + int" where
  "unpack_B s = (case s of [b] \<Rightarrow> Inr (uint b) | _ \<Rightarrow> Inl StructError)"

text \<open>The format \<open>str(length) + 'B'\<close>: \<open>length\<close> unsigned bytes.\<close>

definition unpack_nB :: "int \<Rightarrow> byte list \<Rightarrow> error + int list" where
  "unpack_nB n s =
     (if int (length s) = n then Inr (map uint s) else Inl StructError)"

text \<open>\<open>data[4]\<close> raises \<open>IndexError\<close> on a string of fewer than five bytes.\<close>

definition index4 :: "byte list \<Rightarrow> error + byte list" where
  "index4 s = (if 4 < length s then Inr [s ! 4] else Inl IndexError)"

section \<open>The transport\<close>

text \<open>
  The link is an external object: the engine registers callbacks with it and sends
  typed messages through it; the link calls a callback when a message of its type
  arrives. Here a link records what was sent and which callbacks are registered,
  and holds the messages that the device will deliver, in order of arrival.
\<close>

type_synonym message = "int \<times> byte list"

datatype callback = DoneCallback | ReadCallback

record link =
  sent :: "message list"
  callbacks :: "(int \<times> callback) list"
  inbox :: "message list"

definition add_callback :: "link \<Rightarrow> int \<Rightarrow> callback \<Rightarrow> link" where
  "add_callback l msg_type cb = l\<lparr>callbacks := callbacks l @ [(msg_type, cb)]\<rparr>"

definition send_message :: "link \<Rightarrow> int \<Rightarrow> byte list \<Rightarrow> link" where
  "send_message l msg_type msg = l\<lparr>sent := sent l @ [(msg_type, msg)]\<rparr>"

section \<open>The flash engine (flash.py, lines 10-20 and 65-162)\<close>

definition MSG_STM_FLASH_WRITE :: int where "MSG_STM_FLASH_WRITE = 0xE0"
definition MSG_STM_FLASH_READ :: int where "MSG_STM_FLASH_READ = 0xE1"
definition MSG_STM_FLASH_ERASE :: int where "MSG_STM_FLASH_ERASE = 0xE2"
definition MSG_STM_FLASH_DONE :: int where "MSG_STM_FLASH_DONE = 0xE0"

definition MSG_M25_FLASH_WRITE :: int where "MSG_M25_FLASH_WRITE = 0xF0"
definition MSG_M25_FLASH_READ :: int where "MSG_M25_FLASH_READ = 0xF1"
definition MSG_M25_FLASH_ERASE :: int where "MSG_M25_FLASH_ERASE = 0xF2"
definition MSG_M25_FLASH_DONE :: int where "MSG_M25_FLASH_DONE = 0xF0"

definition ADDRS_PER_OP :: int where "ADDRS_PER_OP = 128"

record flash =
  flash_link :: link
  flash_type :: string
  flash_msg_read :: int
  flash_msg_erase :: int
  flash_msg_write :: int
  waiting_for_callback :: bool
  read_callback_data :: "int list"

text \<open>
  The constructor. The class attributes \<open>_waiting_for_callback = False\<close> and
  \<open>_read_callback_data = []\<close> are the initial values of the two fields. The
  attribute \<open>addr_sector_map\<close> is bound here to one of the two mapping functions
  and never rebound: it is \<open>addr_sector_map\<close> below, which selects by
  \<open>flash_type\<close>.
\<close>

definition Flash_init :: "link \<Rightarrow> string \<Rightarrow> error + flash" where
  "Flash_init l ft =
     (if ft = ''STM'' then
        Inr \<lparr>flash_link = add_callback (add_callback l MSG_STM_FLASH_DONE DoneCallback)
                            MSG_STM_FLASH_READ ReadCallback,
             flash_type = ft,
             flash_msg_read = MSG_STM_FLASH_READ,
             flash_msg_erase = MSG_STM_FLASH_ERASE,
             flash_msg_write = MSG_STM_FLASH_WRITE,
             waiting_for_callback = False,
             read_callback_data = []\<rparr>
      else if ft = ''M25'' then
        Inr \<lparr>flash_link = add_callback (add_callback l MSG_M25_FLASH_DONE DoneCallback)
                            MSG_M25_FLASH_READ ReadCallback,
             flash_type = ft,
             flash_msg_read = MSG_M25_FLASH_READ,
             flash_msg_erase = MSG_M25_FLASH_ERASE,
             flash_msg_write = MSG_M25_FLASH_WRITE,
             waiting_for_callback = False,
             read_callback_data = []\<rparr>
      else Inl ValueError)"

text \<open>
  \<open>self.addr_sector_map(addr)\<close>. An engine of any other type has no such
  attribute; the constructor never returns one.
\<close>

definition addr_sector_map :: "flash \<Rightarrow> int \<Rightarrow> error + int option" where
  "addr_sector_map fl addr =
     (if flash_type fl = ''STM'' then Inr (stm_addr_sector_map addr)
      else if flash_type fl = ''M25'' then
        (case m25_addr_sector_map addr of Inl e \<Rightarrow> Inl e | Inr s \<Rightarrow> Inr (Some s))
      else Inl AttributeError)"

text \<open>
  \<open>range(a, b + 1)\<close> for the sectors of one pair. The arguments are evaluated left
  to right; \<open>None + 1\<close> and \<open>range(None, n)\<close> raise \<open>TypeError\<close>.
\<close>

definition sector_range :: "flash \<Rightarrow> int \<Rightarrow> int \<Rightarrow> error + int list" where
  "sector_range fl s e =
     (case addr_sector_map fl s of
        Inl err \<Rightarrow> Inl err
      | Inr a \<Rightarrow>
          (case addr_sector_map fl e of
             Inl err \<Rightarrow> Inl err
           | Inr b \<Rightarrow>
               (case b of
                  None \<Rightarrow> Inl TypeError
                | Some b' \<Rightarrow>
                    (case a of None \<Rightarrow> Inl TypeError | Some a' \<Rightarrow> Inr [a'..b']))))"

fun sectors_union :: "flash \<Rightarrow> int set \<Rightarrow> (int \<times> int) list \<Rightarrow> error + int set" where
  "sectors_union fl sectors [] = Inr sectors"
| "sectors_union fl sectors ((s, e) # addrs) =
     (case sector_range fl s e of
        Inl err \<Rightarrow> Inl err
      | Inr r \<Rightarrow> sectors_union fl (sectors \<union> set r) addrs)"

definition sectors_used :: "flash \<Rightarrow> (int \<times> int) list \<Rightarrow> error + int list" where
  "sectors_used fl addrs =
     (case sectors_union fl {} addrs of
        Inl err \<Rightarrow> Inl err
      | Inr sectors \<Rightarrow> Inr (sorted_list_of_set sectors))"

definition sector_restricted :: "flash \<Rightarrow> int \<Rightarrow> bool option" where
  "sector_restricted fl sector =
     (if flash_type fl = ''STM'' then
        (if sector < 4 then Some True else Some False)
      else if flash_type fl = ''M25'' then
        (if sector = 15 then Some True else Some False)
      else None)"

subsection \<open>Blocking operations\<close>

text \<open>
  A call of the engine returns a value, raises an exception, or never returns: the
  polling loop \<open>while self._waiting_for_callback == True\<close> has no timeout. The
  third case is the outcome \<open>Blocks\<close>. Every operation also returns the engine
  as the call left it, with the messages sent so far.
\<close>

datatype 'a outcome = Returns 'a | Raises error | Blocks

definition done_callback :: "flash \<Rightarrow> byte list \<Rightarrow> flash" where
  "done_callback fl data = fl\<lparr>waiting_for_callback := False\<rparr>"

definition read_callback :: "flash \<Rightarrow> byte list \<Rightarrow> error + flash" where
  "read_callback fl data =
     (case unpack_I (take 4 data) of
        Inl e \<Rightarrow> Inl e
      | Inr addr \<Rightarrow>
          (case index4 data of
             Inl e \<Rightarrow> Inl e
           | Inr d4 \<Rightarrow>
               (case unpack_B d4 of
                  Inl e \<Rightarrow> Inl e
                | Inr len \<Rightarrow>
                    (case unpack_nB len (drop 5 data) of
                       Inl e \<Rightarrow> Inl e
                     | Inr bs \<Rightarrow>
                         Inr (fl\<lparr>read_callback_data := bs,
                                 waiting_for_callback := False\<rparr>)))))"

text \<open>
  The link hands an arriving message to the callback registered for its type, and
  drops a message of a type without one. An exception raised inside a callback
  surfaces in the link, not in the caller blocked in the polling loop; both
  callbacks assign their fields only after decoding, so the engine is unchanged.
\<close>

definition dispatch :: "flash \<Rightarrow> message \<Rightarrow> flash" where
  "dispatch fl m =
     (case map_of (callbacks (flash_link fl)) (fst m) of
        None \<Rightarrow> fl
      | Some DoneCallback \<Rightarrow> done_callback fl (snd m)
      | Some ReadCallback \<Rightarrow>
          (case read_callback fl (snd m) of Inl e \<Rightarrow> fl | Inr fl' \<Rightarrow> fl'))"

text \<open>
  The polling loop. Between two polls the next message of the device, if any, is
  delivered. When the flag is still set and the device sends nothing more, the loop
  spins for ever.
\<close>

function wait :: "flash \<Rightarrow> unit outcome \<times> flash" where
  "wait fl =
     (if waiting_for_callback fl = True then
        (case inbox (flash_link fl) of
           [] \<Rightarrow> (Blocks, fl)
         | m # ms \<Rightarrow> wait (dispatch (fl\<lparr>flash_link := (flash_link fl)\<lparr>inbox := ms\<rparr>\<rparr>) m))
      else (Returns (), fl))"
  by pat_completeness auto
termination
  by (relation "measure (\<lambda>fl. length (inbox (flash_link fl)))")
     (auto simp: dispatch_def done_callback_def read_callback_def
           split: option.splits callback.splits sum.splits)

declare wait.simps [simp del]

definition erase_sector :: "flash \<Rightarrow> int \<Rightarrow> bool \<Rightarrow> unit outcome \<times> flash" where
  "erase_sector fl sector check_sector =
     (if check_sector \<and> sector_restricted fl sector = Some True
      then (Raises (Exception ''Tried to erase restricted sector''), fl)
      else
        (case pack_B sector of
           Inl e \<Rightarrow> (Raises e, fl)
         | Inr msg_buf \<Rightarrow>
             wait (fl\<lparr>waiting_for_callback := True,
                      flash_link := send_message (flash_link fl) (flash_msg_erase fl) msg_buf\<rparr>)))"

definition flash_write :: "flash \<Rightarrow> int \<Rightarrow> byte list \<Rightarrow> unit outcome \<times> flash" where
  "flash_write fl address data =
     (case pack_IB address (int (length data)) of
        Inl e \<Rightarrow> (Raises e, fl)
      | Inr msg_buf \<Rightarrow>
          wait (fl\<lparr>waiting_for_callback := True,
                   flash_link :=
                     send_message (flash_link fl) (flash_msg_write fl) (msg_buf @ data)\<rparr>))"

definition read :: "flash \<Rightarrow> int \<Rightarrow> int \<Rightarrow> int list outcome \<times> flash" where
  "read fl address len =
     (case pack_IB address len of
        Inl e \<Rightarrow> (Raises e, fl)
      | Inr msg_buf \<Rightarrow>
          (case wait (fl\<lparr>waiting_for_callback := True,
                         flash_link :=
                           send_message (flash_link fl) (flash_msg_read fl) msg_buf\<rparr>) of
             (Returns u, fl') \<Rightarrow> (Returns (read_callback_data fl'), fl')
           | (Raises e, fl') \<Rightarrow> (Raises e, fl')
           | (Blocks, fl') \<Rightarrow> (Blocks, fl')))"

subsection \<open>Programming an image\<close>

text \<open>
  \<open>range(start, stop, step)\<close> of Python 2 for a positive step, the only use in
  the source (the step is \<open>ADDRS_PER_OP\<close>): \<open>start, start + step, ...\<close> below
  \<open>stop\<close>.
\<close>

function py_range :: "int \<Rightarrow> int \<Rightarrow> int \<Rightarrow> int list" where
  "py_range start stop step =
     (if 0 < step \<and> start < stop then start # py_range (start + step) stop step else [])"
  by pat_completeness auto
termination
  by (relation "measure (\<lambda>(start, stop, step). nat (stop - start))") auto

declare py_range.simps [simp del]

text \<open>The erase loop of \<open>write_ihx\<close>.\<close>

fun erase_sectors :: "flash \<Rightarrow> int list \<Rightarrow> unit outcome \<times> flash" where
  "erase_sectors fl [] = (Returns (), fl)"
| "erase_sectors fl (sector # sectors) =
     (case erase_sector fl sector True of
        (Returns u, fl') \<Rightarrow> erase_sectors fl' sectors
      | (Raises e, fl') \<Rightarrow> (Raises e, fl')
      | (Blocks, fl') \<Rightarrow> (Blocks, fl'))"

text \<open>The body of the inner loop: write one chunk, read it back, compare.\<close>

definition program_chunk :: "flash \<Rightarrow> ihx \<Rightarrow> int \<Rightarrow> unit outcome \<times> flash" where
  "program_chunk fl hexfile addr =
     (let binary = tobinstr hexfile addr ADDRS_PER_OP in
      case flash_write fl addr binary of
        (Raises e, fl') \<Rightarrow> (Raises e, fl')
      | (Blocks, fl') \<Rightarrow> (Blocks, fl')
      | (Returns u, fl') \<Rightarrow>
          (case read fl' addr ADDRS_PER_OP of
             (Raises e, fl'') \<Rightarrow> (Raises e, fl'')
           | (Blocks, fl'') \<Rightarrow> (Blocks, fl'')
           | (Returns flash_readback, fl'') \<Rightarrow>
               (if flash_readback \<noteq> map uint binary
                then (Raises (Exception ''data read from flash != data written to flash''), fl'')
                else (Returns (), fl''))))"

text \<open>The inner loop, over the addresses of one range.\<close>

fun program_chunks :: "flash \<Rightarrow> ihx \<Rightarrow> int list \<Rightarrow> unit outcome \<times> flash" where
  "program_chunks fl hexfile [] = (Returns (), fl)"
| "program_chunks fl hexfile (addr # addrs) =
     (case program_chunk fl hexfile addr of
        (Returns u, fl') \<Rightarrow> program_chunks fl' hexfile addrs
      | (Raises e, fl') \<Rightarrow> (Raises e, fl')
      | (Blocks, fl') \<Rightarrow> (Blocks, fl'))"

text \<open>The outer loop, over the pairs that \<open>ihx_ranges\<close> returned.\<close>

fun program_ranges :: "flash \<Rightarrow> ihx \<Rightarrow> (int \<times> int) list \<Rightarrow> unit outcome \<times> flash" where
  "program_ranges fl hexfile [] = (Returns (), fl)"
| "program_ranges fl hexfile ((start, end') # ihx_addrs) =
     (case program_chunks fl hexfile (py_range start end' ADDRS_PER_OP) of
        (Returns u, fl') \<Rightarrow> program_ranges fl' hexfile ihx_addrs
      | (Raises e, fl') \<Rightarrow> (Raises e, fl')
      | (Blocks, fl') \<Rightarrow> (Blocks, fl'))"

text \<open>\<open>write_ihx\<close>, with \<open>flash_write\<close> for the method \<open>write\<close> (a keyword of
  Isabelle); the progress lines it prints are left out.\<close>

definition write_ihx :: "flash \<Rightarrow> ihx \<Rightarrow> unit outcome \<times> flash" where
  "write_ihx fl hexfile =
     (case ihx_ranges hexfile of
        Inl e \<Rightarrow> (Raises e, fl)
      | Inr ihx_addrs \<Rightarrow>
          (case sectors_used fl ihx_addrs of
             Inl e \<Rightarrow> (Raises e, fl)
           | Inr sectors \<Rightarrow>
               (case erase_sectors fl sectors of
                  (Raises e, fl') \<Rightarrow> (Raises e, fl')
                | (Blocks, fl') \<Rightarrow> (Blocks, fl')
                | (Returns u, fl') \<Rightarrow> program_ranges fl' hexfile ihx_addrs)))"

section \<open>Reference definitions\<close>

text \<open>
  The sector layout of the STM device as the specification words it: sectors 0 to 3
  of 16 KiB, sector 4 of 64 KiB, the others of 128 KiB, laid end to end from
  \<open>0x08000000\<close>. These two definitions follow the specification, not the
  source; the mapping function of the source is compared with them below.
\<close>

definition stm_sector_size :: "int \<Rightarrow> int" where
  "stm_sector_size s =
     (if s < 4 then 16 * 1024 else if s = 4 then 64 * 1024 else 128 * 1024)"

definition stm_sector_start :: "int \<Rightarrow> int" where
  "stm_sector_start s = 0x08000000 + sum_list (map stm_sector_size [0..s - 1])"

text \<open>
  The engines that \<open>Flash(link, "STM")\<close> and \<open>Flash(link, "M25")\<close> construct on
  a fresh link whose device is going to deliver the messages \<open>ms\<close>.
\<close>

definition stm_engine :: "message list \<Rightarrow> flash" where
  "stm_engine ms =
     \<lparr>flash_link = \<lparr>sent = [], callbacks = [(0xE0, DoneCallback), (0xE1, ReadCallback)],
                     inbox = ms\<rparr>,
      flash_type = ''STM'', flash_msg_read = 0xE1, flash_msg_erase = 0xE2,
      flash_msg_write = 0xE0, waiting_for_callback = False, read_callback_data = []\<rparr>"

definition m25_engine :: "message list \<Rightarrow> flash" where
  "m25_engine ms =
     \<lparr>flash_link = \<lparr>sent = [], callbacks = [(0xF0, DoneCallback), (0xF1, ReadCallback)],
                     inbox = ms\<rparr>,
      flash_type = ''M25'', flash_msg_read = 0xF1, flash_msg_erase = 0xF2,
      flash_msg_write = 0xF0, waiting_for_callback = False, read_callback_data = []\<rparr>"

text \<open>
  Two auxiliary notions for the range extractor: the number of addresses at the
  front of \<open>ys\<close> that continue \<open>e\<close> without a gap, and the extractor on a list
  whose elements are numbered from \<open>n\<close> instead of 0.
\<close>

fun contig :: "int \<Rightarrow> int list \<Rightarrow> nat" where
  "contig e [] = 0"
| "contig e (y # ys) = (if y = e + 1 then Suc (contig y ys) else 0)"

definition ranges_from :: "int \<Rightarrow> int list \<Rightarrow> error + (int \<times> int) list" where
  "ranges_from n xs =
     collect (\<lambda>(k, v). first_last v) (groupby (\<lambda>(i, x). i - x) (enumerate_from n xs))"

text \<open>
  The valid window of an engine's device, and the sector of an address in it (the
  value 0 outside the window is a filler, not used below).
\<close>

definition valid_window :: "flash \<Rightarrow> int set" where
  "valid_window fl =
     (if flash_type fl = ''STM'' then {0x08000000 ..< 0x08100000}
      else if flash_type fl = ''M25'' then {0x000000 ..< 0x100000}
      else {})"

definition sector_of :: "flash \<Rightarrow> int \<Rightarrow> int" where
  "sector_of fl a = (case addr_sector_map fl a of Inr (Some k) \<Rightarrow> k | _ \<Rightarrow> 0)"

section \<open>The constructor\<close>

lemma Flash_init_STM:
  "Flash_init \<lparr>sent = [], callbacks = [], inbox = ms\<rparr> ''STM'' = Inr (stm_engine ms)"
  by (simp add: Flash_init_def stm_engine_def add_callback_def MSG_STM_FLASH_DONE_def
        MSG_STM_FLASH_READ_def MSG_STM_FLASH_ERASE_def MSG_STM_FLASH_WRITE_def)

lemma Flash_init_M25:
  "Flash_init \<lparr>sent = [], callbacks = [], inbox = ms\<rparr> ''M25'' = Inr (m25_engine ms)"
  by (simp add: Flash_init_def m25_engine_def add_callback_def MSG_M25_FLASH_DONE_def
        MSG_M25_FLASH_READ_def MSG_M25_FLASH_ERASE_def MSG_M25_FLASH_WRITE_def)

section \<open>The sector maps\<close>

lemma stm_sector_start_values:
  "stm_sector_start 0 = 0x08000000" "stm_sector_start 1 = 0x08004000"
  "stm_sector_start 2 = 0x08008000" "stm_sector_start 3 = 0x0800C000"
  "stm_sector_start 4 = 0x08010000" "stm_sector_start 5 = 0x08020000"
  "stm_sector_start 6 = 0x08040000" "stm_sector_start 7 = 0x08060000"
  "stm_sector_start 8 = 0x08080000" "stm_sector_start 9 = 0x080A0000"
  "stm_sector_start 10 = 0x080C0000" "stm_sector_start 11 = 0x080E0000"
  "stm_sector_start 12 = 0x08100000"
  by (simp_all add: stm_sector_start_def stm_sector_size_def upto.simps)

lemma stm_sector_start_next:
  "0 \<le> s \<Longrightarrow> stm_sector_start (s + 1) = stm_sector_start s + stm_sector_size s"
  by (simp add: stm_sector_start_def upto_rec2)

text \<open>The chain of tests in \<open>stm_addr_sector_map\<close>, one comparison for each.\<close>

lemma stm_chain:
  "stm_addr_sector_map a =
    (if a < 0x08000000 then None
     else if a < 0x08004000 then Some 0
     else if a < 0x08008000 then Some 1
     else if a < 0x0800C000 then Some 2
     else if a < 0x08010000 then Some 3
     else if a < 0x08020000 then Some 4
     else if a < 0x08040000 then Some 5
     else if a < 0x08060000 then Some 6
     else if a < 0x08080000 then Some 7
     else if a < 0x080A0000 then Some 8
     else if a < 0x080C0000 then Some 9
     else if a < 0x080E0000 then Some 10
     else if a < 0x08100000 then Some 11
     else None)"
  by (simp add: stm_addr_sector_map_def)

lemma stm_map_below: "a < 0x08000000 \<Longrightarrow> stm_addr_sector_map a = None"
  by (simp add: stm_chain)

lemma stm_map_above: "0x08100000 \<le> a \<Longrightarrow> stm_addr_sector_map a = None"
  by (simp add: stm_chain)

lemma sector_cases:
  "0 \<le> s \<Longrightarrow> s \<le> 11 \<Longrightarrow>
     s = 0 \<or> s = 1 \<or> s = 2 \<or> s = 3 \<or> s = 4 \<or> s = 5 \<or> s = 6 \<or> s = 7 \<or> s = 8 \<or> s = 9
       \<or> s = 10 \<or> s = (11 :: int)"
  by arith

lemma stm_map_range:
  assumes "stm_addr_sector_map a = Some s"
  shows "0 \<le> s \<and> s \<le> 11 \<and> stm_sector_start s \<le> a
      \<and> a < stm_sector_start s + stm_sector_size s"
  using assms
  by (auto simp: stm_chain stm_sector_start_values stm_sector_size_def split: if_splits)

lemma stm_map_in_range:
  assumes "0 \<le> s" "s \<le> 11" "stm_sector_start s \<le> a"
    "a < stm_sector_start s + stm_sector_size s"
  shows "stm_addr_sector_map a = Some s"
proof -
  from assms(1,2) have "s = 0 \<or> s = 1 \<or> s = 2 \<or> s = 3 \<or> s = 4 \<or> s = 5 \<or> s = 6 \<or> s = 7
      \<or> s = 8 \<or> s = 9 \<or> s = 10 \<or> s = 11"
    by (rule sector_cases)
  with assms(3,4) show ?thesis
    by (elim disjE) (simp_all add: stm_chain stm_sector_start_values stm_sector_size_def)
qed

lemma stm_map_iff:
  "stm_addr_sector_map a = Some s \<longleftrightarrow>
     0 \<le> s \<and> s \<le> 11 \<and> stm_sector_start s \<le> a \<and> a < stm_sector_start s + stm_sector_size s"
  using stm_map_range [of a s] stm_map_in_range [of s a] by blast

lemma stm_map_mono:
  "0x08000000 \<le> a \<Longrightarrow> a \<le> b \<Longrightarrow> b < 0x08100000 \<Longrightarrow>
     \<exists>s t. stm_addr_sector_map a = Some s \<and> stm_addr_sector_map b = Some t \<and> s \<le> t"
  by (simp add: stm_chain)

text \<open>
  C5. On the window from \<open>0x08000000\<close> up to, not including, \<open>0x08100000\<close> the STM
  map is monotonic non-decreasing, and it maps an address to sector \<open>s\<close> exactly
  when \<open>s\<close> is one of 0 to 11 and the address lies in the range of \<open>s\<close>. The twelve
  ranges are laid end to end: the first starts at \<open>0x08000000\<close>, each next one
  starts where the one before ends, the last ends at \<open>0x08100000\<close>; sectors 0 to 3
  have 16 KiB, sector 4 has 64 KiB, and sectors 5 to 11 have 128 KiB each.
\<close>

theorem stm_sector_partition:
  "(0x08000000 \<le> a \<and> a \<le> b \<and> b < 0x08100000 \<longrightarrow>
      (\<exists>s t. stm_addr_sector_map a = Some s \<and> stm_addr_sector_map b = Some t \<and> s \<le> t))
   \<and> (stm_addr_sector_map a = Some s \<longleftrightarrow>
        0 \<le> s \<and> s \<le> 11 \<and> stm_sector_start s \<le> a
        \<and> a < stm_sector_start s + stm_sector_size s)
   \<and> stm_sector_start 0 = 0x08000000
   \<and> (0 \<le> s \<longrightarrow> stm_sector_start (s + 1) = stm_sector_start s + stm_sector_size s)
   \<and> stm_sector_start 12 = 0x08100000
   \<and> (0 \<le> s \<and> s \<le> 3 \<longrightarrow> stm_sector_size s = 16384)
   \<and> stm_sector_size 4 = 65536
   \<and> (5 \<le> s \<and> s \<le> 11 \<longrightarrow> stm_sector_size s = 131072)"
proof -
  have mono: "0x08000000 \<le> a \<and> a \<le> b \<and> b < 0x08100000 \<longrightarrow>
      (\<exists>s t. stm_addr_sector_map a = Some s \<and> stm_addr_sector_map b = Some t \<and> s \<le> t)"
    using stm_map_mono [of a b] by blast
  have sizes: "(0 \<le> s \<and> s \<le> 3 \<longrightarrow> stm_sector_size s = 16384)
      \<and> stm_sector_size 4 = 65536
      \<and> (5 \<le> s \<and> s \<le> 11 \<longrightarrow> stm_sector_size s = 131072)"
    by (simp add: stm_sector_size_def)
  have layout: "stm_sector_start 0 = 0x08000000 \<and> stm_sector_start 12 = 0x08100000
      \<and> (0 \<le> s \<longrightarrow> stm_sector_start (s + 1) = stm_sector_start s + stm_sector_size s)"
    by (simp add: stm_sector_start_values stm_sector_start_next)
  have range: "stm_addr_sector_map a = Some s \<longleftrightarrow>
      0 \<le> s \<and> s \<le> 11 \<and> stm_sector_start s \<le> a \<and> a < stm_sector_start s + stm_sector_size s"
    by (rule stm_map_iff)
  from mono range layout sizes show ?thesis
    by (intro conjI) (elim conjE, assumption)+
qed

theorem stm_sector_partition_witness:
  "stm_addr_sector_map 0x08004000 = Some 1
   \<and> stm_addr_sector_map 0x0801FFFF = Some 4
   \<and> stm_sector_start 4 \<le> 0x0801FFFF
   \<and> 0x0801FFFF < stm_sector_start 4 + stm_sector_size 4
   \<and> stm_sector_start (4 + 1) = stm_sector_start 4 + stm_sector_size 4
   \<and> stm_sector_size 4 = 65536
   \<and> stm_sector_size 2 = 16384
   \<and> stm_sector_size 7 = 131072"
  using stm_sector_partition [of "0x08004000" "0x0801FFFF" 4]
    stm_sector_partition [of "0x08004000" "0x0801FFFF" 2]
    stm_sector_partition [of "0x08004000" "0x0801FFFF" 7]
  by (simp add: stm_addr_sector_map_def stm_sector_start_values stm_sector_size_def)

text \<open>
  C4, as the code has it. Outside its window of \<open>0\<close> up to, not including,
  \<open>0x100000\<close> the M25 map raises \<open>ValueError\<close>. Outside its window the STM
  map raises nothing: it returns \<open>None\<close>, no sector. An engine's
  \<open>addr_sector_map\<close> does the same for its type.
\<close>

theorem addr_sector_map_outside_window:
  "((addr < 0 \<or> 0x100000 \<le> addr) \<longrightarrow>
       m25_addr_sector_map addr = Inl ValueError
       \<and> (flash_type fl = ''M25'' \<longrightarrow> addr_sector_map fl addr = Inl ValueError))
   \<and> ((addr < 0x08000000 \<or> 0x08100000 \<le> addr) \<longrightarrow>
       stm_addr_sector_map addr = None
       \<and> (flash_type fl = ''STM'' \<longrightarrow> addr_sector_map fl addr = Inr None))"
proof -
  have m25: "addr < 0 \<or> 0x100000 \<le> addr \<Longrightarrow> m25_addr_sector_map addr = Inl ValueError"
    by (auto simp: m25_addr_sector_map_def)
  have stm: "addr < 0x08000000 \<or> 0x08100000 \<le> addr \<Longrightarrow> stm_addr_sector_map addr = None"
    using stm_map_below [of addr] stm_map_above [of addr] by blast
  show ?thesis
    using m25 stm by (simp add: addr_sector_map_def)
qed

theorem addr_sector_map_outside_window_witness:
  "m25_addr_sector_map 0x100000 = Inl ValueError
   \<and> addr_sector_map (m25_engine []) 0x100000 = Inl ValueError
   \<and> stm_addr_sector_map 0x07FFFFFF = None
   \<and> addr_sector_map (stm_engine []) 0x07FFFFFF = Inr None"
  using addr_sector_map_outside_window [of "0x100000" "m25_engine []"]
    addr_sector_map_outside_window [of "0x07FFFFFF" "stm_engine []"]
  by (simp add: m25_engine_def stm_engine_def)

text \<open>
  C4, as the specification has it, fails for the STM map: at \<open>0x08100000\<close>, the
  first address past the window, the engine gets \<open>None\<close> back and no exception.
\<close>

theorem stm_outside_window_no_error:
  "stm_addr_sector_map 0x08100000 = None
   \<and> addr_sector_map (stm_engine []) 0x08100000 = Inr None"
  by (simp add: stm_addr_sector_map_def addr_sector_map_def stm_engine_def)

section \<open>The range extractor\<close>

lemma takeWhile_key:
  "sorted_wrt (<) (e # ys) \<Longrightarrow> j - e = c \<Longrightarrow>
     takeWhile (\<lambda>y. (case y of (i, x) \<Rightarrow> i - x) = c) (enumerate_from (j + 1) ys)
       = enumerate_from (j + 1) (take (contig e ys) ys)"
proof (induction ys arbitrary: e j)
  case Nil
  then show ?case by simp
next
  case (Cons y ys)
  show ?case
  proof (cases "y = e + 1")
    case True
    with Cons.prems have "sorted_wrt (<) (y # ys)" "(j + 1) - y = c" by auto
    from Cons.IH [OF this] True Cons.prems(2) show ?thesis by simp
  next
    case False
    with Cons.prems show ?thesis by auto
  qed
qed

lemma dropWhile_key:
  "sorted_wrt (<) (e # ys) \<Longrightarrow> j - e = c \<Longrightarrow>
     dropWhile (\<lambda>y. (case y of (i, x) \<Rightarrow> i - x) = c) (enumerate_from (j + 1) ys)
       = enumerate_from (j + 1 + int (contig e ys)) (drop (contig e ys) ys)"
proof (induction ys arbitrary: e j)
  case Nil
  then show ?case by simp
next
  case (Cons y ys)
  show ?case
  proof (cases "y = e + 1")
    case True
    with Cons.prems have "sorted_wrt (<) (y # ys)" "(j + 1) - y = c" by auto
    from Cons.IH [OF this] True Cons.prems(2) show ?thesis by (simp add: add.assoc)
  next
    case False
    with Cons.prems show ?thesis by auto
  qed
qed

lemma set_take_contig:
  "set (take (contig e ys) ys) = {e + 1 .. e + int (contig e ys)}"
proof (induction ys arbitrary: e)
  case Nil
  then show ?case by simp
next
  case (Cons y ys)
  show ?case
  proof (cases "y = e + 1")
    case True
    have "{e + 1 .. e + int (Suc (contig y ys))} = insert (e + 1) {e + 1 + 1 .. e + 1 + int (contig y ys)}"
      by auto
    with True Cons.IH [of y] show ?thesis by simp
  next
    case False
    then show ?thesis by simp
  qed
qed

lemma last_take_contig:
  "last (e # take (contig e ys) ys) = e + int (contig e ys)"
  by (induction ys arbitrary: e) auto

lemma drop_contig_gap:
  "sorted_wrt (<) (e # ys) \<Longrightarrow> z \<in> set (drop (contig e ys) ys) \<Longrightarrow>
     e + int (contig e ys) + 1 < z"
proof (induction ys arbitrary: e)
  case Nil
  then show ?case by simp
next
  case (Cons y ys)
  show ?case
  proof (cases "y = e + 1")
    case True
    with Cons.prems have "sorted_wrt (<) (y # ys)" "z \<in> set (drop (contig y ys) ys)" by auto
    from Cons.IH [OF this] True show ?thesis by simp
  next
    case False
    with Cons.prems show ?thesis by fastforce
  qed
qed

lemma foldl_keep_last: "foldl (\<lambda>last y. y) first x = last (first # x)"
  by (induction x arbitrary: first) auto

lemma map_snd_enumerate_from: "map snd (enumerate_from n xs) = xs"
  by (induction xs arbitrary: n) auto

lemma snd_last_enumerate_from:
  "snd (last ((j, e) # enumerate_from n zs)) = last (e # zs)"
proof -
  have "snd (last ((j, e) # enumerate_from n zs)) = last (map snd ((j, e) # enumerate_from n zs))"
    by (simp only: last_map [OF list.distinct(2)])
  then show ?thesis by (simp add: map_snd_enumerate_from)
qed

lemma ranges_from_Cons:
  assumes "sorted_wrt (<) (x # xs)"
  shows "ranges_from n (x # xs) =
     (case ranges_from (n + 1 + int (contig x xs)) (drop (contig x xs) xs) of
        Inl e \<Rightarrow> Inl e
      | Inr rs \<Rightarrow> Inr ((x, x + int (contig x xs)) # rs))"
  using takeWhile_key [OF assms refl, of n] dropWhile_key [OF assms refl, of n]
  by (simp add: ranges_from_def foldl_keep_last snd_last_enumerate_from last_take_contig
        del: last.simps)

lemma ranges_from_runs:
  "sorted_wrt (<) xs \<Longrightarrow>
     \<exists>rs. ranges_from n xs = Inr rs
        \<and> (\<forall>(s, e) \<in> set rs. s \<le> e)
        \<and> set xs = (\<Union>(s, e) \<in> set rs. {s..e})
        \<and> sorted_wrt (\<lambda>(s, e) (s', e'). e + 1 < s') rs"
proof (induction xs arbitrary: n rule: length_induct)
  case (1 xs)
  show ?case
  proof (cases xs)
    case Nil
    then show ?thesis by (simp add: ranges_from_def)
  next
    case (Cons x xs')
    let ?m = "contig x xs'"
    let ?rest = "drop ?m xs'"
    from 1(2) Cons have sorted: "sorted_wrt (<) (x # xs')" by simp
    then have "sorted_wrt (<) xs'" by simp
    then have rest_sorted: "sorted_wrt (<) ?rest" by (rule sorted_wrt_drop)
    have "length ?rest < length xs" using Cons by simp
    with 1(1) rest_sorted obtain rs where
      rs: "ranges_from (n + 1 + int ?m) ?rest = Inr rs"
      and le: "\<forall>(s, e) \<in> set rs. s \<le> e"
      and cover: "set ?rest = (\<Union>(s, e) \<in> set rs. {s..e})"
      and gaps: "sorted_wrt (\<lambda>(s, e) (s', e'). e + 1 < s') rs"
      by blast
    have res: "ranges_from n xs = Inr ((x, x + int ?m) # rs)"
      using ranges_from_Cons [OF sorted, of n] rs Cons by simp
    have "set xs' = set (take ?m xs') \<union> set ?rest"
      by (metis append_take_drop_id set_append)
    then have "set xs = {x .. x + int ?m} \<union> set ?rest"
      using Cons set_take_contig [of x xs'] by auto
    then have cover': "set xs = (\<Union>(s, e) \<in> set ((x, x + int ?m) # rs). {s..e})"
      using cover by simp
    have "\<forall>(s, e) \<in> set rs. x + int ?m + 1 < s"
    proof (clarify)
      fix s e assume se: "(s, e) \<in> set rs"
      with le have "s \<le> e" by auto
      with se cover have "s \<in> set ?rest" by fastforce
      then show "x + int ?m + 1 < s" by (rule drop_contig_gap [OF sorted])
    qed
    then have gaps': "sorted_wrt (\<lambda>(s, e) (s', e'). e + 1 < s') ((x, x + int ?m) # rs)"
      using gaps by auto
    from res le cover' gaps' show ?thesis by simp
  qed
qed

text \<open>
  C1, as the code has it. \<open>first_last\<close> returns the first and the last address of
  a group, so the pairs are end-inclusive: for the populated addresses 10, 11, 12,
  20, 21, 50 the result is \<open>[(10, 12), (20, 21), (50, 50)]\<close>. In general, for
  addresses in strictly ascending order \<open>ihx_ranges\<close> returns (it never raises)
  pairs \<open>(s, e)\<close> with \<open>s \<le> e\<close>, whose intervals from \<open>s\<close> to \<open>e\<close>, both
  included, cover exactly the populated addresses, in ascending order and with at
  least one unpopulated address between one interval and the next: each is a
  maximal contiguous run.
\<close>

theorem ihx_ranges_runs:
  "ihx_ranges \<lparr>addresses = [10, 11, 12, 20, 21, 50], tobinstr = t\<rparr>
      = Inr [(10, 12), (20, 21), (50, 50)]
   \<and> (sorted_wrt (<) (addresses hexfile) \<longrightarrow>
        (\<exists>rs. ihx_ranges hexfile = Inr rs
           \<and> (\<forall>(s, e) \<in> set rs. s \<le> e)
           \<and> set (addresses hexfile) = (\<Union>(s, e) \<in> set rs. {s..e})
           \<and> sorted_wrt (\<lambda>(s, e) (s', e'). e + 1 < s') rs))"
proof -
  have example: "ihx_ranges \<lparr>addresses = [10, 11, 12, 20, 21, 50], tobinstr = t\<rparr>
      = Inr [(10, 12), (20, 21), (50, 50)]"
    by (simp add: ihx_ranges_def)
  have "ihx_ranges hexfile = ranges_from 0 (addresses hexfile)"
    by (simp add: ihx_ranges_def ranges_from_def)
  with example show ?thesis
    using ranges_from_runs [of "addresses hexfile" 0] by simp
qed

theorem ihx_ranges_runs_witness:
  "sorted_wrt (<) (addresses \<lparr>addresses = [3, 4, 9], tobinstr = (\<lambda>a n. [])\<rparr>)
   \<and> ihx_ranges \<lparr>addresses = [3, 4, 9], tobinstr = (\<lambda>a n. [])\<rparr> = Inr [(3, 4), (9, 9)]
   \<and> set (addresses \<lparr>addresses = [3, 4, 9], tobinstr = (\<lambda>a n. [])\<rparr>) = {3..4} \<union> {9..9}"
  using ihx_ranges_runs [of "\<lambda>a n. []" "\<lparr>addresses = [3, 4, 9], tobinstr = (\<lambda>a n. [])\<rparr>"]
  by (auto simp: ihx_ranges_def)

text \<open>
  C1, as the specification has it, fails: the result for the addresses 10, 11, 12,
  20, 21, 50 is not the end-exclusive \<open>[(10, 13), (20, 22), (50, 51)]\<close>.
\<close>

theorem ihx_ranges_not_end_exclusive:
  "ihx_ranges \<lparr>addresses = [10, 11, 12, 20, 21, 50], tobinstr = (\<lambda>a n. [])\<rparr>
     \<noteq> Inr [(10, 13), (20, 22), (50, 51)]"
  by (simp add: ihx_ranges_def)

section \<open>Sectors of an image\<close>

lemma addr_sector_map_window:
  assumes "a \<in> valid_window fl"
  shows "addr_sector_map fl a = Inr (Some (sector_of fl a))"
proof (cases "flash_type fl = ''STM''")
  case True
  with assms have "0x08000000 \<le> a" "a < 0x08100000" by (simp_all add: valid_window_def)
  from stm_map_mono [OF this(1) order_refl this(2)] obtain s where "stm_addr_sector_map a = Some s"
    by blast
  with True show ?thesis by (simp add: addr_sector_map_def sector_of_def)
next
  case False
  with assms have "flash_type fl = ''M25''" "0 \<le> a" "a < 0x100000"
    by (simp_all add: valid_window_def split: if_splits)
  then show ?thesis by (simp add: addr_sector_map_def sector_of_def m25_addr_sector_map_def)
qed

lemma sector_of_mono:
  assumes "s \<in> valid_window fl" "e \<in> valid_window fl" "s \<le> e"
  shows "sector_of fl s \<le> sector_of fl e"
proof (cases "flash_type fl = ''STM''")
  case True
  with assms have "0x08000000 \<le> s" "e < 0x08100000" by (simp_all add: valid_window_def)
  from stm_map_mono [OF this(1) assms(3) this(2)] True show ?thesis
    by (auto simp: addr_sector_map_def sector_of_def)
next
  case False
  with assms have w: "flash_type fl = ''M25''" "0 \<le> s" "s < 0x100000" "0 \<le> e" "e < 0x100000"
    by (simp_all add: valid_window_def split: if_splits)
  have "s div 2 ^ 16 \<le> e div 2 ^ 16" using assms(3) by (rule zdiv_mono1) simp
  with w show ?thesis
    by (simp add: addr_sector_map_def sector_of_def m25_addr_sector_map_def drop_bit_eq_div)
qed

lemma sector_range_window:
  assumes "s \<in> valid_window fl" "e \<in> valid_window fl"
  shows "sector_range fl s e = Inr [sector_of fl s .. sector_of fl e]"
  using addr_sector_map_window [OF assms(1)] addr_sector_map_window [OF assms(2)]
  by (simp add: sector_range_def)

lemma sectors_union_window:
  assumes "\<forall>(s, e) \<in> set addrs. s \<in> valid_window fl \<and> e \<in> valid_window fl"
  shows "sectors_union fl sectors addrs =
     Inr (sectors \<union> (\<Union>(s, e) \<in> set addrs. {sector_of fl s .. sector_of fl e}))"
  using assms
proof (induction addrs arbitrary: sectors)
  case Nil
  then show ?case by simp
next
  case (Cons p addrs)
  obtain s e where p: "p = (s, e)" by (cases p)
  with Cons.prems have "s \<in> valid_window fl" "e \<in> valid_window fl" by auto
  then have "sector_range fl s e = Inr [sector_of fl s .. sector_of fl e]"
    by (rule sector_range_window)
  moreover from Cons.prems have "\<forall>(s, e) \<in> set addrs. s \<in> valid_window fl \<and> e \<in> valid_window fl"
    by simp
  ultimately show ?case using Cons.IH p by (simp add: Un_assoc)
qed

text \<open>
  C7. For ranges \<open>(s, e)\<close> with \<open>s \<le> e\<close> whose endpoints lie in the valid window
  of the device, \<open>sectors_used\<close> returns a sorted list without duplicates whose
  elements are exactly the sectors from the sector of \<open>s\<close> to the sector of \<open>e\<close>,
  over all ranges; the sectors of both endpoints of every range are among them.
\<close>

theorem sectors_used_window:
  assumes "\<forall>(s, e) \<in> set addrs. s \<in> valid_window fl \<and> e \<in> valid_window fl \<and> s \<le> e"
  shows "\<exists>rs. sectors_used fl addrs = Inr rs \<and> sorted rs \<and> distinct rs
     \<and> set rs = (\<Union>(s, e) \<in> set addrs. {sector_of fl s .. sector_of fl e})
     \<and> (\<forall>(s, e) \<in> set addrs.
           addr_sector_map fl s = Inr (Some (sector_of fl s))
           \<and> addr_sector_map fl e = Inr (Some (sector_of fl e))
           \<and> sector_of fl s \<in> set rs \<and> sector_of fl e \<in> set rs)"
proof -
  let ?S = "\<Union>(s, e) \<in> set addrs. {sector_of fl s .. sector_of fl e}"
  from assms have w: "\<forall>(s, e) \<in> set addrs. s \<in> valid_window fl \<and> e \<in> valid_window fl"
    by auto
  have used: "sectors_used fl addrs = Inr (sorted_list_of_set ?S)"
    using sectors_union_window [OF w, of "{}"] by (simp add: sectors_used_def)
  have fin: "finite ?S" by auto
  have ends: "\<forall>(s, e) \<in> set addrs.
           addr_sector_map fl s = Inr (Some (sector_of fl s))
           \<and> addr_sector_map fl e = Inr (Some (sector_of fl e))
           \<and> sector_of fl s \<in> ?S \<and> sector_of fl e \<in> ?S"
  proof (clarify)
    fix s e assume se: "(s, e) \<in> set addrs"
    with assms have *: "s \<in> valid_window fl" "e \<in> valid_window fl" "s \<le> e" by auto
    then have "sector_of fl s \<le> sector_of fl e" by (rule sector_of_mono)
    then have "sector_of fl s \<in> {sector_of fl s .. sector_of fl e}"
      "sector_of fl e \<in> {sector_of fl s .. sector_of fl e}" by simp_all
    with se have "sector_of fl s \<in> ?S" "sector_of fl e \<in> ?S" by blast+
    with * show "addr_sector_map fl s = Inr (Some (sector_of fl s))
           \<and> addr_sector_map fl e = Inr (Some (sector_of fl e))
           \<and> sector_of fl s \<in> ?S \<and> sector_of fl e \<in> ?S"
      by (simp add: addr_sector_map_window)
  qed
  from used fin ends show ?thesis by simp
qed

theorem sectors_used_window_witness:
  "(\<forall>(s, e) \<in> set [(0x08010000, 0x0802FFFF), (0x08040000, 0x08040010)].
      s \<in> valid_window (stm_engine []) \<and> e \<in> valid_window (stm_engine []) \<and> s \<le> e)
   \<and> sectors_used (stm_engine []) [(0x08010000, 0x0802FFFF), (0x08040000, 0x08040010)]
       = Inr [4, 5, 6]
   \<and> sector_of (stm_engine []) 0x0802FFFF = 5"
  using sectors_used_window
    [of "[(0x08010000, 0x0802FFFF), (0x08040000, 0x08040010)]" "stm_engine []"]
  by (simp add: sectors_used_def sector_range_def addr_sector_map_def stm_engine_def stm_chain
        valid_window_def sector_of_def)

end
